theory Spec2Isabelle
  imports Complex_Main
begin

section \<open>Enumerations of \<^verbatim>\<open>cfg/enums.py\<close>\<close>

text \<open>
  The three configuration enums. Each member carries the value the source binds it to;
  \<open>NONE = None\<close> is Python's \<open>None\<close>, rendered as \<open>None\<close> of an option.
\<close>

datatype PaddingType = REFLECT | REPLICATE | ZERO

datatype NormalizationType = BATCH | INSTANCE | LAYER | NONE

datatype ActivationType = RELU | LEAKY_RELU | TANH | SIGMOID | NONE

fun PaddingType_value :: "PaddingType \<Rightarrow> string" where
  "PaddingType_value REFLECT = ''reflect''"
| "PaddingType_value REPLICATE = ''replicate''"
| "PaddingType_value ZERO = ''zero''"

fun NormalizationType_value :: "NormalizationType \<Rightarrow> string option" where
  "NormalizationType_value BATCH = Some ''batch''"
| "NormalizationType_value INSTANCE = Some ''instance''"
| "NormalizationType_value LAYER = Some ''layer''"
| "NormalizationType_value NormalizationType.NONE = None"

fun ActivationType_value :: "ActivationType \<Rightarrow> string option" where
  "ActivationType_value RELU = Some ''relu''"
| "ActivationType_value LEAKY_RELU = Some ''leaky_relu''"
| "ActivationType_value TANH = Some ''tanh''"
| "ActivationType_value SIGMOID = Some ''sigmoid''"
| "ActivationType_value ActivationType.NONE = None"

text \<open>
  Python does not enforce the annotations of a selector's argument, and both selectors
  end in an \<open>else\<close> branch for anything that is no member of their enum. The argument
  is therefore a Python value: a member of one of the enums, or something else. Members
  of an \<open>Enum\<close> compare equal only to themselves (never to their value, and never to a
  member of another enum), so \<open>==\<close> of the source is equality of this type.
\<close>

datatype pyval =
    NormalizationTypeV NormalizationType
  | ActivationTypeV ActivationType
  | PaddingTypeV PaddingType
  | NoneV
  | StrV string
  | IntV int

section \<open>Errors\<close>

datatype error =
    NotImplementedError
  | StopIteration
  | KeyError string
  | FileNotFoundError
  | ValueError string
  | RuntimeError string

definition bind_err :: "error + 'a \<Rightarrow> ('a \<Rightarrow> error + 'b) \<Rightarrow> error + 'b" where
  "bind_err m f = (case m of Inl e \<Rightarrow> Inl e | Inr v \<Rightarrow> f v)"

section \<open>Layers of \<^verbatim>\<open>img2img/nn/blocks.py\<close>\<close>

text \<open>
  The layers the blocks are assembled from belong to the deep-learning framework. A layer
  is modelled by its constructor call: the class and the arguments the source passes.
  \<open>LeakyReLU\<close> holds the source literal \<open>0.2\<close> as a number, and the flag of \<open>ReLU\<close> and
  \<open>LeakyReLU\<close> is \<open>inplace\<close>.
\<close>

datatype layer =
    Conv2d (in_channels: int) (out_channels: int) (kernel_size: int) (stride: int)
      (padding: int) (padding_mode: string) (bias: bool)
  | BatchNorm2d int
  | InstanceNorm2d int
  | LayerNorm int
  | Identity
  | ReLU bool
  | LeakyReLU real bool
  | Tanh
  | Sigmoid

text \<open>\<open>ConvBlock._normalization_selector\<close>; the first argument is \<open>self.norm_dim\<close>.\<close>

definition normalization_selector :: "int \<Rightarrow> pyval \<Rightarrow> error + layer" where
  "normalization_selector norm_dim normalization_type =
     (if normalization_type = NormalizationTypeV BATCH then Inr (BatchNorm2d norm_dim)
      else if normalization_type = NormalizationTypeV INSTANCE then Inr (InstanceNorm2d norm_dim)
      else if normalization_type = NormalizationTypeV LAYER then Inr (LayerNorm norm_dim)
      else if normalization_type = NormalizationTypeV NormalizationType.NONE then Inr Identity
      else Inl NotImplementedError)"

text \<open>\<open>ConvBlock._activation_layer_selector\<close>.\<close>

definition activation_layer_selector :: "pyval \<Rightarrow> error + layer" where
  "activation_layer_selector activation_type =
     (if activation_type = ActivationTypeV RELU then Inr (ReLU True)
      else if activation_type = ActivationTypeV LEAKY_RELU then Inr (LeakyReLU 0.2 True)
      else if activation_type = ActivationTypeV TANH then Inr Tanh
      else if activation_type = ActivationTypeV SIGMOID then Inr Sigmoid
      else if activation_type = ActivationTypeV ActivationType.NONE then Inr Identity
      else Inl NotImplementedError)"

text \<open>
  A \<open>ConvBlock\<close> object: the attributes \<open>__init__\<close> assigns. \<open>model\<close> is the
  \<open>nn.Sequential\<close> of the three layers, kept as the list of its children.
\<close>

record ConvBlock =
  norm_dim :: int
  normalization_layer :: layer
  activation_layer :: layer
  model :: "layer list"

text \<open>
  The constructor of \<open>nn.Conv2d\<close> belongs to the framework. It is modelled from the
  framework's documented behaviour, as far as it decides whether a block is built: a
  \<open>padding_mode\<close> other than the four the framework knows is rejected with
  \<open>ValueError\<close>, and after that check the weight tensor of shape
  \<open>(out_channels, in_channels, kernel_size, kernel_size)\<close> is allocated, which raises
  \<open>RuntimeError\<close> when a dimension is negative. A dimension of 0 is accepted.
\<close>

definition valid_padding_modes :: "string list" where
  "valid_padding_modes = [''zeros'', ''reflect'', ''replicate'', ''circular'']"

definition Conv2d_init ::
  "int \<Rightarrow> int \<Rightarrow> int \<Rightarrow> int \<Rightarrow> int \<Rightarrow> string \<Rightarrow> bool \<Rightarrow> error + layer" where
  "Conv2d_init in_ch out_ch ksize strd pad pmode bias_flag =
     (if pmode \<notin> set valid_padding_modes then Inl (ValueError ''padding_mode'')
      else if out_ch < 0 \<or> in_ch < 0 \<or> ksize < 0
        then Inl (RuntimeError ''negative dimension'')
      else Inr (Conv2d in_ch out_ch ksize strd pad pmode bias_flag))"

text \<open>
  \<open>ConvBlock.__init__\<close>. The selectors run first, in the source's order, then the
  \<open>Conv2d\<close> layer is constructed; an exception of any of the three leaves no object.
\<close>

definition ConvBlock_init ::
  "int \<Rightarrow> int \<Rightarrow> int \<Rightarrow> int \<Rightarrow> int \<Rightarrow> pyval \<Rightarrow> PaddingType \<Rightarrow> pyval \<Rightarrow> bool
    \<Rightarrow> error + ConvBlock" where
  "ConvBlock_init in_ch out_ch ksize strd pad normalization_type padding_type
      activation_type bias_flag =
     bind_err (normalization_selector out_ch normalization_type) (\<lambda>nl.
     bind_err (activation_layer_selector activation_type) (\<lambda>al.
     bind_err (Conv2d_init in_ch out_ch ksize strd pad (PaddingType_value padding_type)
                 bias_flag) (\<lambda>conv.
       Inr \<lparr> norm_dim = out_ch,
             normalization_layer = nl,
             activation_layer = al,
             model = [conv, nl, al] \<rparr>)))"

text \<open>
  \<open>nn.Sequential.forward\<close>: the children are applied in order, each to the result of
  the one before. \<open>fwd\<close> is the forward pass of a child; it may raise.
\<close>

fun Sequential_forward :: "('m \<Rightarrow> 't \<Rightarrow> error + 't) \<Rightarrow> 'm list \<Rightarrow> 't \<Rightarrow> error + 't" where
  "Sequential_forward fwd [] x = Inr x"
| "Sequential_forward fwd (m # ms) x = bind_err (fwd m x) (Sequential_forward fwd ms)"

text \<open>
  \<open>ConvBlock.forward\<close>. \<open>run\<close> is the framework's forward pass of a single layer on a
  tensor of type \<open>'t\<close>.
\<close>

definition ConvBlock_forward :: "(layer \<Rightarrow> 't \<Rightarrow> error + 't) \<Rightarrow> ConvBlock \<Rightarrow> 't \<Rightarrow> error + 't" where
  "ConvBlock_forward run self x = Sequential_forward run (model self) x"

text \<open>
  A \<open>ResBlock\<close> object: \<open>model\<close> is the \<open>nn.Sequential\<close> of two \<open>ConvBlock\<close>s.
  Neither call passes \<open>bias\<close>, so both take its default \<open>True\<close>.
\<close>

record ResBlock =
  res_model :: "ConvBlock list"

definition ResBlock_init ::
  "int \<Rightarrow> int \<Rightarrow> int \<Rightarrow> int \<Rightarrow> pyval \<Rightarrow> PaddingType \<Rightarrow> pyval \<Rightarrow> error + ResBlock" where
  "ResBlock_init channels ksize strd pad normalization_type padding_type activation_type =
     bind_err (ConvBlock_init channels channels ksize strd pad normalization_type
                 padding_type activation_type True) (\<lambda>b1.
     bind_err (ConvBlock_init channels channels ksize strd pad normalization_type
                 padding_type (ActivationTypeV ActivationType.NONE) True) (\<lambda>b2.
       Inr \<lparr> res_model = [b1, b2] \<rparr>))"

text \<open>
  The children of an \<open>nn.Sequential\<close> are separate objects, each with weights of its
  own, also when they were constructed from the same arguments. So the forward pass of
  a child is given together with its position in the container.
\<close>

fun Sequential_forward_from ::
  "(nat \<Rightarrow> 'm \<Rightarrow> 't \<Rightarrow> error + 't) \<Rightarrow> nat \<Rightarrow> 'm list \<Rightarrow> 't \<Rightarrow> error + 't" where
  "Sequential_forward_from fwd i [] x = Inr x"
| "Sequential_forward_from fwd i (m # ms) x =
     bind_err (fwd i m x) (Sequential_forward_from fwd (Suc i) ms)"

text \<open>
  \<open>ResBlock.forward\<close>: \<open>self.model(x) + x\<close>. \<open>run i\<close> is the framework's forward pass of
  the layers of the \<open>i\<close>-th \<open>ConvBlock\<close>, and \<open>tadd\<close> its addition of two tensors, which
  raises when the shapes do not agree.
\<close>

definition ResBlock_forward ::
  "(nat \<Rightarrow> layer \<Rightarrow> 't \<Rightarrow> error + 't) \<Rightarrow> ('t \<Rightarrow> 't \<Rightarrow> error + 't) \<Rightarrow> ResBlock \<Rightarrow> 't
    \<Rightarrow> error + 't" where
  "ResBlock_forward run tadd self x =
     bind_err (Sequential_forward_from (\<lambda>i. ConvBlock_forward (run i)) 0 (res_model self) x)
       (\<lambda>b. tadd b x)"

text \<open>
  \<open>ConvBlocks.__init__\<close>. Python integers are unbounded, so the loop variable is an
  \<open>int\<close>. The \<open>while\<close> loop need not end: not returning is the value \<open>None\<close>, and an
  exception of a \<open>ConvBlock\<close> constructor leaves the loop with \<open>Some (Inl e)\<close>.
\<close>

record ConvBlocks =
  layers :: "ConvBlock list"
  blocks_model :: "ConvBlock list"

partial_function (option) ConvBlocks_loop ::
  "int \<Rightarrow> int \<Rightarrow> int \<Rightarrow> int \<Rightarrow> int \<Rightarrow> PaddingType \<Rightarrow> pyval \<Rightarrow> pyval \<Rightarrow> ConvBlock list
    \<Rightarrow> (error + ConvBlock list) option" where
  "ConvBlocks_loop layer_multiplier max_layer_multiplier ksize strd pad padding_type
      normalization_type activation_type acc =
     (if layer_multiplier < max_layer_multiplier then
        (case ConvBlock_init layer_multiplier (layer_multiplier * 2) ksize strd pad
                normalization_type padding_type activation_type True of
           Inl e \<Rightarrow> Some (Inl e)
         | Inr b \<Rightarrow> ConvBlocks_loop (layer_multiplier * 2) max_layer_multiplier ksize strd pad
                      padding_type normalization_type activation_type (acc @ [b]))
      else Some (Inr acc))"

definition ConvBlocks_init ::
  "int \<Rightarrow> int \<Rightarrow> int \<Rightarrow> int \<Rightarrow> int \<Rightarrow> PaddingType \<Rightarrow> pyval \<Rightarrow> pyval
    \<Rightarrow> (error + ConvBlocks) option" where
  "ConvBlocks_init layer_multiplier max_layer_multiplier ksize strd pad padding_type
      normalization_type activation_type =
     (case ConvBlocks_loop layer_multiplier max_layer_multiplier ksize strd pad padding_type
             normalization_type activation_type [] of
        None \<Rightarrow> None
      | Some (Inl e) \<Rightarrow> Some (Inl e)
      | Some (Inr ls) \<Rightarrow> Some (Inr \<lparr> layers = ls, blocks_model = ls \<rparr>))"

section \<open>Paths and the dataset enum\<close>

text \<open>
  A \<open>pathlib\<close> path on a POSIX system: whether it is anchored at the root, and its
  components. The constructor splits its argument at \<open>/\<close> and drops empty components
  and \<open>.\<close>, so a trailing slash does not matter.
\<close>

datatype Path = PosixPath (is_absolute: bool) (parts: "string list")

fun split_slash :: "string \<Rightarrow> string \<Rightarrow> string list" where
  "split_slash cur [] = [cur]"
| "split_slash cur (c # cs) =
     (if c = CHR ''/'' then cur # split_slash [] cs else split_slash (cur @ [c]) cs)"

definition mkPath :: "string \<Rightarrow> Path" where
  "mkPath s = PosixPath (take 1 s = ''/'')
                (filter (\<lambda>c. c \<noteq> [] \<and> c \<noteq> ''.'') (split_slash [] s))"

text \<open>\<open>folder / name\<close>: an absolute right operand replaces the left one.\<close>

definition truediv :: "Path \<Rightarrow> string \<Rightarrow> Path" where
  "truediv p s = (let q = mkPath s in
     if is_absolute q then q else PosixPath (is_absolute p) (parts p @ parts q))"

datatype DatasetType = ANIME_DATASET | NATURAL_VIEW_DATASET | EDGES2SHOES | AFHQ_CATS_DATASET

fun DatasetType_value :: "DatasetType \<Rightarrow> Path" where
  "DatasetType_value ANIME_DATASET =
     mkPath ''/media/omarabdelgawad/New Volume/Datasets/image_coloring/anime_dataset/''"
| "DatasetType_value NATURAL_VIEW_DATASET =
     mkPath ''/media/omarabdelgawad/New Volume/Datasets/image_coloring/natural_view/''"
| "DatasetType_value EDGES2SHOES =
     mkPath ''/media/omarabdelgawad/New Volume/Datasets/image_coloring/edges2shoes/''"
| "DatasetType_value AFHQ_CATS_DATASET = mkPath ''/home/eyad/Downloads/afhq/''"

section \<open>Formatting integers\<close>

text \<open>\<open>str\<close> of a Python integer, as the f-strings of \<^verbatim>\<open>utils.py\<close> use it.\<close>

function str_nat :: "nat \<Rightarrow> string" where
  "str_nat n = (if n < 10 then [''0123456789'' ! n]
                else str_nat (n div 10) @ [''0123456789'' ! (n mod 10)])"
  by pat_completeness auto
termination
  by (relation "measure id") auto

declare str_nat.simps [simp del]

definition str_int :: "int \<Rightarrow> string" where
  "str_int i = (if i < 0 then CHR ''-'' # str_nat (nat (- i)) else str_nat (nat i))"


section \<open>Training utilities of \<^verbatim>\<open>img2img/models/pix2pix/utils.py\<close>\<close>

text \<open>
  The module \<^verbatim>\<open>img2img/cfg/__init__.py\<close> is not among the sources: the three
  constants of it that the utilities read are parameters.
\<close>

record ('c, 'd) Cfg =
  DEVICE :: 'd
  NORM_STD :: 'c
  NORM_MEAN :: 'c

text \<open>
  The tensor operations of the framework that the utilities call, on tensors of type
  \<open>'t\<close>. An operation whose operands must agree in shape may raise.
\<close>

record ('t, 'c, 'd) Torch =
  tensor_to :: "'t \<Rightarrow> 'd \<Rightarrow> 't"
  tensor_mul :: "'t \<Rightarrow> 'c \<Rightarrow> error + 't"
  tensor_add :: "'t \<Rightarrow> 'c \<Rightarrow> error + 't"
  torch_cat :: "'t list \<Rightarrow> int \<Rightarrow> error + 't"
  make_grid :: "'t \<Rightarrow> int \<Rightarrow> int \<Rightarrow> 't"

definition remove_normalization ::
  "('t, 'c, 'd) Torch \<Rightarrow> ('c, 'd) Cfg \<Rightarrow> 't \<Rightarrow> error + 't" where
  "remove_normalization T c x =
     bind_err (tensor_mul T x (NORM_STD c)) (\<lambda>z. tensor_add T z (NORM_MEAN c))"

text \<open>
  An \<open>nn.Module\<close> as the utilities see it: the mode flag that \<open>eval()\<close> and \<open>train()\<close>
  set, and the rest of the module.
\<close>

record 'w Module =
  training :: bool
  weights :: 'w

definition Module_eval :: "'w Module \<Rightarrow> 'w Module" where
  "Module_eval m = m\<lparr>training := False\<rparr>"

definition Module_train :: "'w Module \<Rightarrow> 'w Module" where
  "Module_train m = m\<lparr>training := True\<rparr>"

text \<open>
  The effects are kept as the calls made, in order: what a \<open>SummaryWriter\<close> was given,
  what \<open>save_image\<close> was asked to write, and what was printed.
\<close>

record ('t, 'w) SummaryWriter =
  graphs :: "('w Module \<times> 't) list"
  images :: "(string \<times> 't) list"

definition add_graph :: "'w Module \<Rightarrow> 't \<Rightarrow> ('t, 'w) SummaryWriter \<Rightarrow> ('t, 'w) SummaryWriter" where
  "add_graph m x writer = writer\<lparr>graphs := graphs writer @ [(m, x)]\<rparr>"

definition add_image :: "string \<Rightarrow> 't \<Rightarrow> ('t, 'w) SummaryWriter \<Rightarrow> ('t, 'w) SummaryWriter" where
  "add_image tag img writer = writer\<lparr>images := images writer @ [(tag, img)]\<rparr>"

type_synonym 't image_files = "('t \<times> Path \<times> int \<times> int) list"

definition save_image :: "'t \<Rightarrow> Path \<Rightarrow> int \<Rightarrow> int \<Rightarrow> 't image_files \<Rightarrow> 't image_files" where
  "save_image tensor fp nrow pad fs = fs @ [(tensor, fp, nrow, pad)]"

text \<open>
  \<open>save_some_examples\<close>. \<open>call\<close> is the forward pass of the generator. The loader is
  the list of its batches; \<open>next(iter(val_loader))\<close> raises \<open>StopIteration\<close> on an empty
  one.
\<close>

definition save_some_examples ::
  "('t, 'c, 'd) Torch \<Rightarrow> ('c, 'd) Cfg \<Rightarrow> ('w Module \<Rightarrow> 't \<Rightarrow> error + 't) \<Rightarrow> 'w Module
    \<Rightarrow> ('t \<times> 't) list \<Rightarrow> int \<Rightarrow> Path \<Rightarrow> ('t, 'w) SummaryWriter \<Rightarrow> 't image_files
    \<Rightarrow> error + ('w Module \<times> ('t, 'w) SummaryWriter \<times> 't image_files)" where
  "save_some_examples T c call gen val_loader epoch folder writer fs =
     (let gen = Module_eval gen in
      case val_loader of
        [] \<Rightarrow> Inl StopIteration
      | (x, y) # _ \<Rightarrow>
          let x = tensor_to T x (DEVICE c); y = tensor_to T y (DEVICE c) in
          bind_err
            (if epoch = 0 then
               bind_err (remove_normalization T c y) (\<lambda>label.
                 Inr (add_graph gen x writer,
                      save_image label
                        (truediv folder (''label_'' @ str_int epoch @ ''.png'')) 4 0 fs))
             else Inr (writer, fs)) (\<lambda>(writer, fs).
          bind_err (call gen x) (\<lambda>y_fake.
          bind_err (remove_normalization T c y_fake) (\<lambda>y_fake.
          bind_err (remove_normalization T c x) (\<lambda>x.
          bind_err (torch_cat T [x, y_fake] 3) (\<lambda>x_concat.
            let fs = save_image x_concat
                       (truediv folder (''sample_'' @ str_int epoch @ ''.png'')) 4 0 fs;
                img_grid = make_grid T x_concat 4 0;
                writer = add_image (''test_image epoch='' @ str_int epoch) img_grid writer
            in Inr (Module_train gen, writer, fs)))))))"

text \<open>\<open>evaluate_val_set\<close>: the body of the \<open>for\<close> loop over the enumerated loader.\<close>

fun evaluate_val_loop ::
  "('t, 'c, 'd) Torch \<Rightarrow> ('c, 'd) Cfg \<Rightarrow> ('w Module \<Rightarrow> 't \<Rightarrow> error + 't) \<Rightarrow> 'w Module
    \<Rightarrow> Path \<Rightarrow> int \<Rightarrow> ('t \<times> 't) list \<Rightarrow> 't image_files \<Rightarrow> string list
    \<Rightarrow> error + ('t image_files \<times> string list)" where
  "evaluate_val_loop T c call gen folder idx [] fs out = Inr (fs, out)"
| "evaluate_val_loop T c call gen folder idx ((x, y) # rest) fs out =
     (let x = tensor_to T x (DEVICE c); y = tensor_to T y (DEVICE c) in
      bind_err (call gen x) (\<lambda>y_fake.
      bind_err (remove_normalization T c y_fake) (\<lambda>y_fake.
      bind_err (remove_normalization T c x) (\<lambda>x.
      bind_err (torch_cat T [y, y_fake] 3) (\<lambda>y_concat.
        evaluate_val_loop T c call gen folder (idx + 1) rest
          (save_image y_concat (truediv folder (''val_'' @ str_int idx @ ''.png'')) 4 0 fs)
          (out @ [''Saving '' @ str_int idx @ '' image'']))))))"

definition evaluate_val_set ::
  "('t, 'c, 'd) Torch \<Rightarrow> ('c, 'd) Cfg \<Rightarrow> ('w Module \<Rightarrow> 't \<Rightarrow> error + 't) \<Rightarrow> 'w Module
    \<Rightarrow> ('t \<times> 't) list \<Rightarrow> Path \<Rightarrow> 't image_files \<Rightarrow> string list
    \<Rightarrow> error + ('w Module \<times> 't image_files \<times> string list)" where
  "evaluate_val_set T c call gen val_loader folder fs out =
     (let gen = Module_eval gen in
      bind_err (evaluate_val_loop T c call gen folder 0 val_loader fs out) (\<lambda>(fs, out).
        Inr (Module_train gen, fs, out)))"

subsection \<open>Checkpoints\<close>

text \<open>
  An optimizer as \<open>load_checkpoint\<close> sees it: its \<open>param_groups\<close>, a list of
  dictionaries, and the rest of its state.
\<close>

record ('s, 'v) Optimizer =
  opt_state :: 's
  param_groups :: "(string \<rightharpoonup> 'v) list"

text \<open>
  The \<open>state_dict\<close> and \<open>load_state_dict\<close> methods of the framework's modules and
  optimizers, on picklable objects of type \<open>'obj\<close>. Loading raises when the object does
  not fit the receiver.
\<close>

record ('m, 's, 'v, 'obj) StateApi =
  module_state_dict :: "'m \<Rightarrow> 'obj"
  module_load_state_dict :: "'m \<Rightarrow> 'obj \<Rightarrow> error + 'm"
  optimizer_state_dict :: "('s, 'v) Optimizer \<Rightarrow> 'obj"
  optimizer_load_state_dict :: "('s, 'v) Optimizer \<Rightarrow> 'obj \<Rightarrow> error + ('s, 'v) Optimizer"

text \<open>
  Checkpoint files: \<open>torch.save\<close> stores a dictionary under a path and \<open>torch.load\<close>
  reads it back; a path that holds nothing raises.
\<close>

type_synonym 'obj checkpoint_files = "Path \<rightharpoonup> (string \<rightharpoonup> 'obj)"

definition torch_save ::
  "(string \<rightharpoonup> 'obj) \<Rightarrow> Path \<Rightarrow> 'obj checkpoint_files \<Rightarrow> 'obj checkpoint_files" where
  "torch_save obj f files = files(f \<mapsto> obj)"

definition torch_load :: "'obj checkpoint_files \<Rightarrow> Path \<Rightarrow> error + (string \<rightharpoonup> 'obj)" where
  "torch_load files f = (case files f of None \<Rightarrow> Inl FileNotFoundError | Some obj \<Rightarrow> Inr obj)"

definition getitem :: "(string \<rightharpoonup> 'obj) \<Rightarrow> string \<Rightarrow> error + 'obj" where
  "getitem d k = (case d k of None \<Rightarrow> Inl (KeyError k) | Some v \<Rightarrow> Inr v)"

definition save_checkpoint ::
  "('m, 's, 'v, 'obj) StateApi \<Rightarrow> 'm \<Rightarrow> ('s, 'v) Optimizer \<Rightarrow> Path
    \<Rightarrow> 'obj checkpoint_files \<Rightarrow> string list \<Rightarrow> 'obj checkpoint_files \<times> string list" where
  "save_checkpoint A mdl optimizer filename files out =
     (let out = out @ [''=> Saving checkpoint''];
          checkpoint = [''state_dict'' \<mapsto> module_state_dict A mdl,
                        ''optimizer'' \<mapsto> optimizer_state_dict A optimizer]
      in (torch_save checkpoint filename files, out))"

definition load_checkpoint ::
  "('m, 's, 'v, 'obj) StateApi \<Rightarrow> 'obj checkpoint_files \<Rightarrow> Path \<Rightarrow> 'm \<Rightarrow> ('s, 'v) Optimizer
    \<Rightarrow> 'v \<Rightarrow> string list \<Rightarrow> error + ('m \<times> ('s, 'v) Optimizer \<times> string list)" where
  "load_checkpoint A files checkpoint_file mdl optimizer lr out =
     (let out = out @ [''=> Loading checkpoint''] in
      bind_err (torch_load files checkpoint_file) (\<lambda>checkpoint.
      bind_err (getitem checkpoint ''state_dict'') (\<lambda>sd.
      bind_err (module_load_state_dict A mdl sd) (\<lambda>mdl.
      bind_err (getitem checkpoint ''optimizer'') (\<lambda>osd.
      bind_err (optimizer_load_state_dict A optimizer osd) (\<lambda>optimizer.
        Inr (mdl,
             optimizer\<lparr>param_groups :=
               map (\<lambda>param_group. param_group(''lr'' \<mapsto> lr)) (param_groups optimizer)\<rparr>,
             out)))))))"

section \<open>A small instance of the framework\<close>

text \<open>
  An instance on which the utilities can be run: a tensor is a list of integers, moving
  it to a device changes nothing, concatenation appends, a module adds its weight to
  every entry, and a state dictionary is the list of weights of a module or the state
  and parameter groups of an optimizer.
\<close>

definition list_torch :: "(int list, int, unit) Torch" where
  "list_torch =
     \<lparr> tensor_to = (\<lambda>x d. x),
       tensor_mul = (\<lambda>x k. Inr (map (\<lambda>v. v * k) x)),
       tensor_add = (\<lambda>x k. Inr (map (\<lambda>v. v + k) x)),
       torch_cat = (\<lambda>xs dim. Inr (concat xs)),
       make_grid = (\<lambda>x nrow pad. x) \<rparr>"

definition list_cfg :: "(int, unit) Cfg" where
  "list_cfg = \<lparr> DEVICE = (), NORM_STD = 2, NORM_MEAN = 1 \<rparr>"

definition list_call :: "int Module \<Rightarrow> int list \<Rightarrow> error + int list" where
  "list_call g x = Inr (map (\<lambda>v. v + weights g) x)"

definition dict_api ::
  "(int list, nat, int, int list + nat \<times> (string \<rightharpoonup> int) list) StateApi" where
  "dict_api =
     \<lparr> module_state_dict = Inl,
       module_load_state_dict = (\<lambda>m obj.
         case obj of
           Inl w \<Rightarrow> if length w = length m then Inr w else Inl (RuntimeError ''size mismatch'')
         | Inr _ \<Rightarrow> Inl (RuntimeError ''unexpected keys'')),
       optimizer_state_dict = (\<lambda>opt. Inr (opt_state opt, param_groups opt)),
       optimizer_load_state_dict = (\<lambda>opt obj.
         case obj of
           Inl _ \<Rightarrow> Inl (RuntimeError ''not an optimizer state'')
         | Inr (st, gs) \<Rightarrow>
             if length gs = length (param_groups opt)
             then Inr \<lparr> opt_state = st, param_groups = gs \<rparr>
             else Inl (RuntimeError ''different number of parameter groups'')) \<rparr>"

section \<open>Properties of the blocks\<close>

lemma bind_err_Inl [simp]: "bind_err (Inl e) f = Inl e"
  by (simp add: bind_err_def)

lemma bind_err_Inr [simp]: "bind_err (Inr v) f = f v"
  by (simp add: bind_err_def)

lemma bind_err_Inr_iff: "bind_err m f = Inr r \<longleftrightarrow> (\<exists>v. m = Inr v \<and> f v = Inr r)"
  by (cases m) simp_all

lemma bind_err_assoc: "bind_err (bind_err m f) g = bind_err m (\<lambda>v. bind_err (f v) g)"
  by (cases m) simp_all

lemma bind_err_return [simp]: "bind_err m Inr = m"
  by (cases m) simp_all

lemma Sequential_forward_Nil_fun: "Sequential_forward fwd [] = Inr"
  by (rule ext) simp

lemma Sequential_forward_Cons_fun:
  "Sequential_forward fwd (m # ms) = (\<lambda>x. bind_err (fwd m x) (Sequential_forward fwd ms))"
  by (rule ext) simp

lemma normalization_selector_member:
  "normalization_selector d (NormalizationTypeV n) =
     Inr (case n of BATCH \<Rightarrow> BatchNorm2d d | INSTANCE \<Rightarrow> InstanceNorm2d d
          | LAYER \<Rightarrow> LayerNorm d | NormalizationType.NONE \<Rightarrow> Identity)"
  by (cases n) (simp_all add: normalization_selector_def)

lemma activation_layer_selector_member:
  "activation_layer_selector (ActivationTypeV a) =
     Inr (case a of RELU \<Rightarrow> ReLU True | LEAKY_RELU \<Rightarrow> LeakyReLU 0.2 True | TANH \<Rightarrow> Tanh
          | SIGMOID \<Rightarrow> Sigmoid | ActivationType.NONE \<Rightarrow> Identity)"
  by (cases a) (simp_all add: activation_layer_selector_def)

lemma Sequential_forward_from_Nil_fun: "Sequential_forward_from fwd i [] = Inr"
  by (rule ext) simp

lemma Sequential_forward_from_Cons_fun:
  "Sequential_forward_from fwd i (m # ms) =
     (\<lambda>x. bind_err (fwd i m x) (Sequential_forward_from fwd (Suc i) ms))"
  by (rule ext) simp

lemma Conv2d_init_Inr_iff:
  "Conv2d_init ic oc k s p pm b = Inr conv \<longleftrightarrow>
     pm \<in> set valid_padding_modes \<and> 0 \<le> oc \<and> 0 \<le> ic \<and> 0 \<le> k
     \<and> conv = Conv2d ic oc k s p pm b"
  by (auto simp: Conv2d_init_def)

lemma ConvBlock_init_Inr_iff:
  "ConvBlock_init ic oc k s p nrm pt act b = Inr cb \<longleftrightarrow>
     (\<exists>nl al. normalization_selector oc nrm = Inr nl
        \<and> activation_layer_selector act = Inr al
        \<and> PaddingType_value pt \<in> set valid_padding_modes \<and> 0 \<le> oc \<and> 0 \<le> ic \<and> 0 \<le> k
        \<and> cb = \<lparr> norm_dim = oc, normalization_layer = nl, activation_layer = al,
                  model = [Conv2d ic oc k s p (PaddingType_value pt) b, nl, al] \<rparr>)"
  by (auto simp: ConvBlock_init_def bind_err_Inr_iff Conv2d_init_Inr_iff)

lemma ConvBlock_init_member:
  assumes "PaddingType_value pt \<in> set valid_padding_modes" and "0 \<le> ic" and "0 \<le> oc"
    and "0 \<le> k"
  shows "\<exists>cb. ConvBlock_init ic oc k s p (NormalizationTypeV n) pt (ActivationTypeV a) b = Inr cb"
  using assms
  by (simp add: ConvBlock_init_Inr_iff normalization_selector_member
      activation_layer_selector_member)

lemma ConvBlock_init_negative:
  assumes "ic < 0"
  shows "\<exists>e. ConvBlock_init ic oc k s p nrm pt act b = Inl e"
proof (cases "ConvBlock_init ic oc k s p nrm pt act b")
  case (Inl e)
  then show ?thesis by blast
next
  case (Inr cb)
  then have "0 \<le> ic" by (auto simp: ConvBlock_init_Inr_iff)
  with assms show ?thesis by simp
qed

text \<open>
  C1. For every member of \<open>NormalizationType\<close> and of \<open>ActivationType\<close> the selectors
  return the layer the fixed table names, and these are the layers of any block the
  \<open>ConvBlock\<close> constructor returns for them: \<open>BATCH\<close>, \<open>INSTANCE\<close> and \<open>LAYER\<close> give
  \<open>BatchNorm2d\<close>, \<open>InstanceNorm2d\<close> and \<open>LayerNorm\<close> over \<open>out_channels\<close>, \<open>NONE\<close> gives
  \<open>Identity\<close>; \<open>RELU\<close> gives \<open>ReLU\<close>, \<open>LEAKY_RELU\<close> gives \<open>LeakyReLU\<close> with slope \<open>0.2\<close>,
  \<open>TANH\<close> gives \<open>Tanh\<close>, \<open>SIGMOID\<close> gives \<open>Sigmoid\<close> and \<open>NONE\<close> gives \<open>Identity\<close>.
\<close>

theorem ConvBlock_layers_by_enum:
  "normalization_selector oc (NormalizationTypeV n) =
     Inr (case n of BATCH \<Rightarrow> BatchNorm2d oc | INSTANCE \<Rightarrow> InstanceNorm2d oc
          | LAYER \<Rightarrow> LayerNorm oc | NormalizationType.NONE \<Rightarrow> Identity)
   \<and> activation_layer_selector (ActivationTypeV a) =
     Inr (case a of RELU \<Rightarrow> ReLU True | LEAKY_RELU \<Rightarrow> LeakyReLU 0.2 True | TANH \<Rightarrow> Tanh
          | SIGMOID \<Rightarrow> Sigmoid | ActivationType.NONE \<Rightarrow> Identity)
   \<and> (ConvBlock_init ic oc k s p (NormalizationTypeV n) pt (ActivationTypeV a) b = Inr cb \<longrightarrow>
        normalization_layer cb =
          (case n of BATCH \<Rightarrow> BatchNorm2d oc | INSTANCE \<Rightarrow> InstanceNorm2d oc
           | LAYER \<Rightarrow> LayerNorm oc | NormalizationType.NONE \<Rightarrow> Identity)
      \<and> activation_layer cb =
          (case a of RELU \<Rightarrow> ReLU True | LEAKY_RELU \<Rightarrow> LeakyReLU 0.2 True | TANH \<Rightarrow> Tanh
           | SIGMOID \<Rightarrow> Sigmoid | ActivationType.NONE \<Rightarrow> Identity)
      \<and> model cb = [Conv2d ic oc k s p (PaddingType_value pt) b,
                     normalization_layer cb, activation_layer cb])"
  by (auto simp: ConvBlock_init_Inr_iff normalization_selector_member
      activation_layer_selector_member)

theorem ConvBlock_layers_by_enum_witness:
  "ConvBlock_init 3 64 4 2 1 (NormalizationTypeV BATCH) REPLICATE (ActivationTypeV LEAKY_RELU) True
     = Inr \<lparr> norm_dim = 64, normalization_layer = BatchNorm2d 64,
             activation_layer = LeakyReLU 0.2 True,
             model = [Conv2d 3 64 4 2 1 ''replicate'' True, BatchNorm2d 64,
                      LeakyReLU 0.2 True] \<rparr>
   \<and> normalization_selector 64 (NormalizationTypeV BATCH) = Inr (BatchNorm2d 64)
   \<and> activation_layer_selector (ActivationTypeV LEAKY_RELU) = Inr (LeakyReLU 0.2 True)"
proof -
  have h: "ConvBlock_init 3 64 4 2 1 (NormalizationTypeV BATCH) REPLICATE
             (ActivationTypeV LEAKY_RELU) True
     = Inr \<lparr> norm_dim = 64, normalization_layer = BatchNorm2d 64,
             activation_layer = LeakyReLU 0.2 True,
             model = [Conv2d 3 64 4 2 1 ''replicate'' True, BatchNorm2d 64,
                      LeakyReLU 0.2 True] \<rparr>"
    by (simp add: ConvBlock_init_def normalization_selector_def activation_layer_selector_def
        Conv2d_init_def valid_padding_modes_def)
  from ConvBlock_layers_by_enum [where oc = 64 and n = BATCH and a = LEAKY_RELU and ic = 3
      and k = 4 and s = 2 and p = 1 and pt = REPLICATE and b = True] h
  show ?thesis by simp
qed

text \<open>
  C2. The forward pass of a \<open>ConvBlock\<close>, however it was built, is the \<open>Conv2d\<close> layer
  (its \<open>padding_mode\<close> the value of the padding-type member), then the selected
  normalization layer, then the selected activation layer.
\<close>

theorem ConvBlock_forward_composition:
  assumes "ConvBlock_init ic oc k s p nrm pt act b = Inr cb"
  shows "normalization_selector oc nrm = Inr (normalization_layer cb)
     \<and> activation_layer_selector act = Inr (activation_layer cb)
     \<and> ConvBlock_forward run cb x =
         bind_err (bind_err (run (Conv2d ic oc k s p (PaddingType_value pt) b) x)
                     (run (normalization_layer cb)))
           (run (activation_layer cb))"
proof -
  from assms obtain nl al where
    nl: "normalization_selector oc nrm = Inr nl" and
    al: "activation_layer_selector act = Inr al" and
    cb: "cb = \<lparr> norm_dim = oc, normalization_layer = nl, activation_layer = al,
               model = [Conv2d ic oc k s p (PaddingType_value pt) b, nl, al] \<rparr>"
    by (auto simp: ConvBlock_init_Inr_iff)
  have "ConvBlock_forward run cb x =
      bind_err (run (Conv2d ic oc k s p (PaddingType_value pt) b) x)
        (\<lambda>v. bind_err (run nl v) (run al))"
    by (simp add: cb ConvBlock_forward_def Sequential_forward_Cons_fun
        Sequential_forward_Nil_fun)
  then show ?thesis
    by (simp add: nl al cb bind_err_assoc)
qed

theorem ConvBlock_forward_composition_witness:
  "ConvBlock_forward (\<lambda>l v. if l = Identity then Inr v else Inr (v + 1))
     \<lparr> norm_dim = 64, normalization_layer = BatchNorm2d 64, activation_layer = Identity,
       model = [Conv2d 3 64 4 2 1 ''reflect'' True, BatchNorm2d 64, Identity] \<rparr> (5::int)
   = Inr 7"
proof -
  have h: "ConvBlock_init 3 64 4 2 1 (NormalizationTypeV BATCH) REFLECT
             (ActivationTypeV ActivationType.NONE) True
           = Inr \<lparr> norm_dim = 64, normalization_layer = BatchNorm2d 64,
                   activation_layer = Identity,
                   model = [Conv2d 3 64 4 2 1 ''reflect'' True, BatchNorm2d 64, Identity] \<rparr>"
    by (simp add: ConvBlock_init_def normalization_selector_def activation_layer_selector_def
        Conv2d_init_def valid_padding_modes_def)
  show ?thesis
    using ConvBlock_forward_composition [OF h,
        of "\<lambda>l v. if l = Identity then Inr v else Inr (v + 1)" "5::int"]
    by simp
qed

text \<open>
  C3. The forward pass of a \<open>ResBlock\<close> is \<open>body(x) + x\<close>, the body being two
  \<open>ConvBlock\<close>s in sequence over the same number of channels, each with layers of its
  own, the first with the given activation type and the second with the activation
  \<open>NONE\<close>.
\<close>

theorem ResBlock_forward_residual:
  assumes "ResBlock_init ch k s p nrm pt act = Inr rb"
  shows "\<exists>b1 b2.
      ConvBlock_init ch ch k s p nrm pt act True = Inr b1
    \<and> ConvBlock_init ch ch k s p nrm pt (ActivationTypeV ActivationType.NONE) True = Inr b2
    \<and> res_model rb = [b1, b2]
    \<and> ResBlock_forward run tadd rb x =
        bind_err (bind_err (ConvBlock_forward (run 0) b1 x) (ConvBlock_forward (run 1) b2))
          (\<lambda>body. tadd body x)"
proof -
  from assms obtain b1 b2 where
    b1: "ConvBlock_init ch ch k s p nrm pt act True = Inr b1" and
    b2: "ConvBlock_init ch ch k s p nrm pt (ActivationTypeV ActivationType.NONE) True = Inr b2" and
    rb: "rb = \<lparr> res_model = [b1, b2] \<rparr>"
    by (auto simp: ResBlock_init_def bind_err_Inr_iff)
  have "ResBlock_forward run tadd rb x =
      bind_err (bind_err (ConvBlock_forward (run 0) b1 x) (ConvBlock_forward (run 1) b2))
        (\<lambda>body. tadd body x)"
    by (simp add: rb ResBlock_forward_def Sequential_forward_from_Cons_fun
        Sequential_forward_from_Nil_fun)
  with b1 b2 rb show ?thesis by simp
qed

theorem ResBlock_forward_residual_witness:
  "ResBlock_forward
     (\<lambda>i l v. if l = Identity then Inr v else if i = 0 then Inr (v * 2) else Inr (v + 1))
     (\<lambda>u v. Inr (u + v))
     \<lparr> res_model =
         [\<lparr> norm_dim = 256, normalization_layer = InstanceNorm2d 256,
            activation_layer = ReLU True,
            model = [Conv2d 256 256 3 1 1 ''reflect'' True, InstanceNorm2d 256, ReLU True] \<rparr>,
          \<lparr> norm_dim = 256, normalization_layer = InstanceNorm2d 256,
            activation_layer = Identity,
            model = [Conv2d 256 256 3 1 1 ''reflect'' True, InstanceNorm2d 256, Identity] \<rparr>] \<rparr>
     (5::int)
   = Inr 47"
proof -
  have h: "ResBlock_init 256 3 1 1 (NormalizationTypeV INSTANCE) REFLECT (ActivationTypeV RELU)
    = Inr \<lparr> res_model =
         [\<lparr> norm_dim = 256, normalization_layer = InstanceNorm2d 256,
            activation_layer = ReLU True,
            model = [Conv2d 256 256 3 1 1 ''reflect'' True, InstanceNorm2d 256, ReLU True] \<rparr>,
          \<lparr> norm_dim = 256, normalization_layer = InstanceNorm2d 256,
            activation_layer = Identity,
            model = [Conv2d 256 256 3 1 1 ''reflect'' True, InstanceNorm2d 256, Identity] \<rparr>] \<rparr>"
    by (simp add: ResBlock_init_def ConvBlock_init_def normalization_selector_def
        activation_layer_selector_def Conv2d_init_def valid_padding_modes_def)
  show ?thesis
    using ResBlock_forward_residual [OF h,
        where run = "\<lambda>i l v. if l = Identity then Inr v
                              else if i = 0 then Inr (v * 2) else Inr (v + 1)"
          and tadd = "\<lambda>u v. Inr (u + v)" and x = "5::int"]
    by (auto simp: ConvBlock_init_Inr_iff normalization_selector_def
        activation_layer_selector_def ConvBlock_forward_def)
qed

text \<open>
  C8. On a member of its enum neither selector raises, and a selector raises exactly on
  a value that is no member of its enum.
\<close>

theorem selectors_raise_only_outside_enum:
  "(\<exists>l. normalization_selector d (NormalizationTypeV n) = Inr l)
   \<and> (\<exists>l. activation_layer_selector (ActivationTypeV a) = Inr l)
   \<and> ((\<exists>e. normalization_selector d v = Inl e) \<longleftrightarrow> v \<notin> range NormalizationTypeV)
   \<and> ((\<exists>e. activation_layer_selector w = Inl e) \<longleftrightarrow> w \<notin> range ActivationTypeV)"
proof -
  have n: "(\<exists>e. normalization_selector d v = Inl e) \<longleftrightarrow> v \<notin> range NormalizationTypeV"
  proof (cases v)
    case (NormalizationTypeV m)
    then show ?thesis by (simp add: normalization_selector_member)
  qed (auto simp: normalization_selector_def)
  have a: "(\<exists>e. activation_layer_selector w = Inl e) \<longleftrightarrow> w \<notin> range ActivationTypeV"
  proof (cases w)
    case (ActivationTypeV m)
    then show ?thesis by (simp add: activation_layer_selector_member)
  qed (auto simp: activation_layer_selector_def)
  show ?thesis
    using n a by (simp add: normalization_selector_member activation_layer_selector_member)
qed

subsection \<open>The loop of \<open>ConvBlocks\<close>\<close>

lemma ConvBlocks_loop_returns:
  assumes "1 \<le> lm"
  shows "\<exists>r. ConvBlocks_loop lm mx k s p pt nrm act acc = Some r"
  using assms
proof (induction "nat (mx - lm)" arbitrary: lm acc rule: less_induct)
  case less
  show ?case
  proof (cases "lm < mx")
    case False
    then show ?thesis by (subst ConvBlocks_loop.simps) simp
  next
    case True
    show ?thesis
    proof (cases "ConvBlock_init lm (lm * 2) k s p nrm pt act True")
      case (Inl e)
      with True show ?thesis by (subst ConvBlocks_loop.simps) simp
    next
      case (Inr blk)
      have "nat (mx - lm * 2) < nat (mx - lm)" using True less.prems by simp
      moreover have "1 \<le> lm * 2" using less.prems by simp
      ultimately obtain r where
        "ConvBlocks_loop (lm * 2) mx k s p pt nrm act (acc @ [blk]) = Some r"
        using less.hyps by blast
      with True Inr show ?thesis by (subst ConvBlocks_loop.simps) simp
    qed
  qed
qed

lemma doubling_ge:
  fixes lm :: int
  assumes "1 \<le> lm"
  shows "lm \<le> lm * 2 ^ i"
proof -
  have "(1::int) \<le> 2 ^ i" by simp
  with assms have "lm * 1 \<le> lm * 2 ^ i" by (intro mult_left_mono) simp_all
  then show ?thesis by simp
qed

lemma ConvBlocks_loop_doubling:
  assumes k: "0 \<le> k" and pt: "PaddingType_value pt \<in> set valid_padding_modes"
  shows "1 \<le> lm \<Longrightarrow> \<exists>N bs.
      ConvBlocks_loop lm mx k s p pt (NormalizationTypeV n) (ActivationTypeV a) acc
        = Some (Inr (acc @ bs))
    \<and> map Inr bs =
        map (\<lambda>i. ConvBlock_init (lm * 2 ^ i) (lm * 2 ^ i * 2) k s p (NormalizationTypeV n) pt
                   (ActivationTypeV a) True) [0..<N]
    \<and> (\<forall>i. i < N \<longleftrightarrow> lm * 2 ^ i < mx)"
proof (induction "nat (mx - lm)" arbitrary: lm acc rule: less_induct)
  case less
  show ?case
  proof (cases "lm < mx")
    case False
    have "\<forall>i. \<not> lm * 2 ^ i < mx"
    proof
      fix i
      from doubling_ge [OF less.prems, of i] False show "\<not> lm * 2 ^ i < mx" by simp
    qed
    moreover from False have
      "ConvBlocks_loop lm mx k s p pt (NormalizationTypeV n) (ActivationTypeV a) acc
         = Some (Inr (acc @ []))"
      by (subst ConvBlocks_loop.simps) simp
    ultimately show ?thesis
      by (intro exI [of _ 0] exI [of _ "[]"]) simp
  next
    case True
    have nonneg: "0 \<le> lm" "0 \<le> lm * 2" using less.prems by simp_all
    obtain blk where blk:
      "ConvBlock_init lm (lm * 2) k s p (NormalizationTypeV n) pt (ActivationTypeV a) True
         = Inr blk"
      using ConvBlock_init_member [OF pt nonneg k] by blast
    have "nat (mx - lm * 2) < nat (mx - lm)" using True less.prems by simp
    moreover have "1 \<le> lm * 2" using less.prems by simp
    ultimately obtain N bs where
      run: "ConvBlocks_loop (lm * 2) mx k s p pt (NormalizationTypeV n) (ActivationTypeV a)
              (acc @ [blk]) = Some (Inr ((acc @ [blk]) @ bs))" and
      blocks: "map Inr bs =
        map (\<lambda>i. ConvBlock_init (lm * 2 * 2 ^ i) (lm * 2 * 2 ^ i * 2) k s p
                   (NormalizationTypeV n) pt (ActivationTypeV a) True) [0..<N]" and
      count: "\<forall>i. i < N \<longleftrightarrow> lm * 2 * 2 ^ i < mx"
      using less.hyps [of "lm * 2" "acc @ [blk]"] by blast
    have 1: "ConvBlocks_loop lm mx k s p pt (NormalizationTypeV n) (ActivationTypeV a) acc
        = Some (Inr (acc @ blk # bs))"
      using True blk run by (subst ConvBlocks_loop.simps) simp
    have 2: "map Inr (blk # bs) =
        map (\<lambda>i. ConvBlock_init (lm * 2 ^ i) (lm * 2 ^ i * 2) k s p (NormalizationTypeV n) pt
                   (ActivationTypeV a) True) [0..<Suc N]"
      unfolding map_upt_Suc using blk blocks by (simp add: mult.assoc)
    have 3: "\<forall>i. i < Suc N \<longleftrightarrow> lm * 2 ^ i < mx"
    proof
      fix i
      show "i < Suc N \<longleftrightarrow> lm * 2 ^ i < mx"
      proof (cases i)
        case 0
        with True show ?thesis by simp
      next
        case (Suc j)
        with count show ?thesis by (simp add: mult.assoc)
      qed
    qed
    from 1 2 3 show ?thesis by blast
  qed
qed

lemma ConvBlocks_loop_Some_nonzero:
  assumes "ConvBlocks_loop lm mx k s p pt nrm act acc = Some r"
  shows "\<not> (lm = 0 \<and> 0 < mx
            \<and> (\<exists>blk. ConvBlock_init 0 0 k s p nrm pt act True = Inr blk))"
  using assms
proof (induct rule: ConvBlocks_loop.raw_induct [rotated 1, consumes 1])
  case (1 f lm mx k s p pt nrm act acc r)
  show ?case
  proof
    assume A: "lm = 0 \<and> 0 < mx
      \<and> (\<exists>blk. ConvBlock_init 0 0 k s p nrm pt act True = Inr blk)"
    then obtain blk where "ConvBlock_init 0 0 k s p nrm pt act True = Inr blk"
      by blast
    with A "1"(2) have "f 0 mx k s p pt nrm act (acc @ [blk]) = Some r" by simp
    from "1"(1) [OF this] A show False by auto
  qed
qed

lemma ConvBlocks_loop_negative:
  assumes "lm < 0" and "lm < mx"
  shows "\<exists>e. ConvBlocks_loop lm mx k s p pt nrm act acc = Some (Inl e)"
proof -
  from ConvBlock_init_negative [OF assms(1)] obtain e where
    "ConvBlock_init lm (lm * 2) k s p nrm pt act True = Inl e"
    by blast
  with assms(2) show ?thesis by (subst ConvBlocks_loop.simps) simp
qed

text \<open>
  C9, as amended. From a \<open>layer_multiplier\<close> of at least 1 the loop of the \<open>ConvBlocks\<close>
  constructor ends, whatever the other arguments. When the \<open>ConvBlock\<close> constructor
  calls succeed (members of the enums, a padding mode the framework accepts, a kernel
  size that is not negative) it yields the blocks whose input channels are
  \<open>layer_multiplier\<close>, twice that, four times that and so on, for exactly the values
  below \<open>max_layer_multiplier\<close>, each block doubling its channels. It yields no block
  when \<open>layer_multiplier\<close> is not below \<open>max_layer_multiplier\<close>. From a
  \<open>layer_multiplier\<close> of 0 below \<open>max_layer_multiplier\<close> the loop does not end when the
  constructor calls succeed. From a negative \<open>layer_multiplier\<close> below
  \<open>max_layer_multiplier\<close> the first constructor call raises and the loop ends with its
  exception.
\<close>

theorem ConvBlocks_loop_outcomes:
  "(1 \<le> lm \<longrightarrow> (\<exists>r. ConvBlocks_init lm mx k s p pt nrm act = Some r))
   \<and> (1 \<le> lm \<and> 0 \<le> k \<and> PaddingType_value pt \<in> set valid_padding_modes \<longrightarrow>
        (\<exists>N bs.
           ConvBlocks_init lm mx k s p pt (NormalizationTypeV n) (ActivationTypeV a)
             = Some (Inr \<lparr> layers = bs, blocks_model = bs \<rparr>)
         \<and> map Inr bs =
             map (\<lambda>i. ConvBlock_init (lm * 2 ^ i) (lm * 2 ^ i * 2) k s p
                        (NormalizationTypeV n) pt (ActivationTypeV a) True) [0..<N]
         \<and> (\<forall>i. i < N \<longleftrightarrow> lm * 2 ^ i < mx)))
   \<and> (mx \<le> lm \<longrightarrow>
        ConvBlocks_init lm mx k s p pt nrm act
          = Some (Inr \<lparr> layers = [], blocks_model = [] \<rparr>))
   \<and> (0 < mx \<and> 0 \<le> k \<and> PaddingType_value pt \<in> set valid_padding_modes \<longrightarrow>
        ConvBlocks_init 0 mx k s p pt (NormalizationTypeV n) (ActivationTypeV a) = None)
   \<and> (lm < 0 \<and> lm < mx \<longrightarrow>
        (\<exists>e. ConvBlocks_init lm mx k s p pt nrm act = Some (Inl e)))"
proof (intro conjI impI)
  assume "1 \<le> lm"
  then obtain r where "ConvBlocks_loop lm mx k s p pt nrm act [] = Some r"
    using ConvBlocks_loop_returns by blast
  then show "\<exists>r. ConvBlocks_init lm mx k s p pt nrm act = Some r"
    by (cases r) (simp_all add: ConvBlocks_init_def)
next
  assume A: "1 \<le> lm \<and> 0 \<le> k \<and> PaddingType_value pt \<in> set valid_padding_modes"
  then have "0 \<le> k" "PaddingType_value pt \<in> set valid_padding_modes" "1 \<le> lm"
    by simp_all
  from ConvBlocks_loop_doubling [OF this, where mx = mx and s = s and p = p and n = n
      and a = a and acc = "[]"]
  show "\<exists>N bs.
           ConvBlocks_init lm mx k s p pt (NormalizationTypeV n) (ActivationTypeV a)
             = Some (Inr \<lparr> layers = bs, blocks_model = bs \<rparr>)
         \<and> map Inr bs =
             map (\<lambda>i. ConvBlock_init (lm * 2 ^ i) (lm * 2 ^ i * 2) k s p
                        (NormalizationTypeV n) pt (ActivationTypeV a) True) [0..<N]
         \<and> (\<forall>i. i < N \<longleftrightarrow> lm * 2 ^ i < mx)"
    by (auto simp: ConvBlocks_init_def)
next
  assume "mx \<le> lm"
  then have "ConvBlocks_loop lm mx k s p pt nrm act [] = Some (Inr [])"
    by (subst ConvBlocks_loop.simps) simp
  then show "ConvBlocks_init lm mx k s p pt nrm act
      = Some (Inr \<lparr> layers = [], blocks_model = [] \<rparr>)"
    by (simp add: ConvBlocks_init_def)
next
  assume A: "0 < mx \<and> 0 \<le> k \<and> PaddingType_value pt \<in> set valid_padding_modes"
  then have blk: "\<exists>blk. ConvBlock_init 0 0 k s p (NormalizationTypeV n) pt (ActivationTypeV a)
      True = Inr blk"
    by (intro ConvBlock_init_member) simp_all
  have "ConvBlocks_loop 0 mx k s p pt (NormalizationTypeV n) (ActivationTypeV a) [] = None"
  proof (cases "ConvBlocks_loop 0 mx k s p pt (NormalizationTypeV n) (ActivationTypeV a) []")
    case None
    then show ?thesis .
  next
    case (Some r)
    from ConvBlocks_loop_Some_nonzero [OF this] A blk
    show ?thesis by blast
  qed
  then show "ConvBlocks_init 0 mx k s p pt (NormalizationTypeV n) (ActivationTypeV a) = None"
    by (simp add: ConvBlocks_init_def)
next
  assume "lm < 0 \<and> lm < mx"
  then obtain e where "ConvBlocks_loop lm mx k s p pt nrm act [] = Some (Inl e)"
    using ConvBlocks_loop_negative by blast
  then show "\<exists>e. ConvBlocks_init lm mx k s p pt nrm act = Some (Inl e)"
    by (simp add: ConvBlocks_init_def)
qed

lemma upt_4: "[0..<4] = [0, 1, 2, 3]"
  by (simp add: upt_rec)

theorem ConvBlocks_loop_outcomes_witness:
  "(\<exists>bs. ConvBlocks_init 64 1024 4 2 0 REFLECT (NormalizationTypeV NormalizationType.NONE)
            (ActivationTypeV RELU) = Some (Inr \<lparr> layers = bs, blocks_model = bs \<rparr>)
         \<and> map (\<lambda>b. hd (model b)) bs =
             [Conv2d 64 128 4 2 0 ''reflect'' True, Conv2d 128 256 4 2 0 ''reflect'' True,
              Conv2d 256 512 4 2 0 ''reflect'' True, Conv2d 512 1024 4 2 0 ''reflect'' True])
   \<and> ConvBlocks_init 1024 1024 4 2 0 REFLECT (NormalizationTypeV NormalizationType.NONE)
        (ActivationTypeV RELU) = Some (Inr \<lparr> layers = [], blocks_model = [] \<rparr>)
   \<and> ConvBlocks_init 0 1024 4 2 0 REFLECT (NormalizationTypeV NormalizationType.NONE)
        (ActivationTypeV RELU) = None
   \<and> (\<exists>e. ConvBlocks_init (- 1) 1024 4 2 0 REFLECT (NormalizationTypeV NormalizationType.NONE)
        (ActivationTypeV RELU) = Some (Inl e))"
proof -
  have pm: "PaddingType_value REFLECT \<in> set valid_padding_modes"
    by (simp add: valid_padding_modes_def)
  note pos = ConvBlocks_loop_outcomes [where lm = 64 and mx = 1024 and k = 4 and s = 2
      and p = 0 and pt = REFLECT and nrm = "NormalizationTypeV NormalizationType.NONE"
      and act = "ActivationTypeV RELU" and n = NormalizationType.NONE and a = RELU]
  note top = ConvBlocks_loop_outcomes [where lm = 1024 and mx = 1024 and k = 4 and s = 2
      and p = 0 and pt = REFLECT and nrm = "NormalizationTypeV NormalizationType.NONE"
      and act = "ActivationTypeV RELU" and n = NormalizationType.NONE and a = RELU]
  note neg = ConvBlocks_loop_outcomes [where lm = "- 1" and mx = 1024 and k = 4 and s = 2
      and p = 0 and pt = REFLECT and nrm = "NormalizationTypeV NormalizationType.NONE"
      and act = "ActivationTypeV RELU" and n = NormalizationType.NONE and a = RELU]
  from pos pm obtain N bs where
    init: "ConvBlocks_init 64 1024 4 2 0 REFLECT (NormalizationTypeV NormalizationType.NONE)
            (ActivationTypeV RELU) = Some (Inr \<lparr> layers = bs, blocks_model = bs \<rparr>)" and
    blocks: "map Inr bs =
      map (\<lambda>i. ConvBlock_init (64 * 2 ^ i) (64 * 2 ^ i * 2) 4 2 0
                 (NormalizationTypeV NormalizationType.NONE) REFLECT (ActivationTypeV RELU) True)
        [0..<N]" and
    count: "\<forall>i. i < N \<longleftrightarrow> (64::int) * 2 ^ i < 1024"
    by auto
  from count have "3 < N \<longleftrightarrow> (64::int) * 2 ^ 3 < 1024" "4 < N \<longleftrightarrow> (64::int) * 2 ^ 4 < 1024"
    by blast+
  then have "3 < N" "\<not> 4 < N" by simp_all
  then have N: "N = 4" by simp
  from blocks have "map (\<lambda>b. hd (model b)) bs =
     [Conv2d 64 128 4 2 0 ''reflect'' True, Conv2d 128 256 4 2 0 ''reflect'' True,
      Conv2d 256 512 4 2 0 ''reflect'' True, Conv2d 512 1024 4 2 0 ''reflect'' True]"
    unfolding N upt_4
    by (auto simp: ConvBlock_init_def normalization_selector_def activation_layer_selector_def
        Conv2d_init_def valid_padding_modes_def)
  with init top neg pm show ?thesis by simp
qed

text \<open>
  The claim as it was stated fails for a negative \<open>layer_multiplier\<close>: the loop started
  at \<open>-1\<close> below the bound \<open>1024\<close> ends, with the \<open>RuntimeError\<close> of the first \<open>Conv2d\<close>.
\<close>

theorem ConvBlocks_loop_negative_ends:
  "ConvBlocks_init (- 1) 1024 4 2 0 REFLECT (NormalizationTypeV NormalizationType.NONE)
     (ActivationTypeV RELU) = Some (Inl (RuntimeError ''negative dimension''))"
  unfolding ConvBlocks_init_def
  by (subst ConvBlocks_loop.simps)
    (simp add: ConvBlock_init_def normalization_selector_def activation_layer_selector_def
      Conv2d_init_def valid_padding_modes_def)

section \<open>Properties of the dataset enum\<close>

lemma DatasetType_value_anime:
  "DatasetType_value ANIME_DATASET =
     PosixPath True [''media'', ''omarabdelgawad'', ''New Volume'', ''Datasets'',
                     ''image_coloring'', ''anime_dataset'']"
  by (simp add: mkPath_def)

lemma DatasetType_value_natural:
  "DatasetType_value NATURAL_VIEW_DATASET =
     PosixPath True [''media'', ''omarabdelgawad'', ''New Volume'', ''Datasets'',
                     ''image_coloring'', ''natural_view'']"
  by (simp add: mkPath_def)

lemma DatasetType_value_edges:
  "DatasetType_value EDGES2SHOES =
     PosixPath True [''media'', ''omarabdelgawad'', ''New Volume'', ''Datasets'',
                     ''image_coloring'', ''edges2shoes'']"
  by (simp add: mkPath_def)

lemma DatasetType_value_afhq:
  "DatasetType_value AFHQ_CATS_DATASET = PosixPath True [''home'', ''eyad'', ''Downloads'', ''afhq'']"
  by (simp add: mkPath_def)

text \<open>
  C7. \<open>DatasetType\<close> has four members, and the value of each is a constant absolute path
  written out in the source; the value depends on nothing but the member.
\<close>

theorem DatasetType_values_hardcoded:
  "(UNIV :: DatasetType set) =
      {ANIME_DATASET, NATURAL_VIEW_DATASET, EDGES2SHOES, AFHQ_CATS_DATASET}
   \<and> is_absolute (DatasetType_value d)
   \<and> DatasetType_value ANIME_DATASET =
       PosixPath True [''media'', ''omarabdelgawad'', ''New Volume'', ''Datasets'',
                       ''image_coloring'', ''anime_dataset'']
   \<and> DatasetType_value NATURAL_VIEW_DATASET =
       PosixPath True [''media'', ''omarabdelgawad'', ''New Volume'', ''Datasets'',
                       ''image_coloring'', ''natural_view'']
   \<and> DatasetType_value EDGES2SHOES =
       PosixPath True [''media'', ''omarabdelgawad'', ''New Volume'', ''Datasets'',
                       ''image_coloring'', ''edges2shoes'']
   \<and> DatasetType_value AFHQ_CATS_DATASET =
       PosixPath True [''home'', ''eyad'', ''Downloads'', ''afhq'']"
proof -
  have "(UNIV :: DatasetType set) =
      {ANIME_DATASET, NATURAL_VIEW_DATASET, EDGES2SHOES, AFHQ_CATS_DATASET}"
  proof -
    have "x \<in> {ANIME_DATASET, NATURAL_VIEW_DATASET, EDGES2SHOES, AFHQ_CATS_DATASET}"
      for x :: DatasetType
      by (cases x) simp_all
    then show ?thesis by blast
  qed
  moreover have "is_absolute (DatasetType_value d)"
    by (cases d)
      (simp_all only: DatasetType_value_anime DatasetType_value_natural
        DatasetType_value_edges DatasetType_value_afhq Path.sel)
  ultimately show ?thesis
    by (simp only: DatasetType_value_anime DatasetType_value_natural
        DatasetType_value_edges DatasetType_value_afhq simp_thms)
qed

section \<open>Properties of the training utilities\<close>

lemma str_int_0: "str_int 0 = ''0''"
  by (simp add: str_int_def str_nat.simps)

text \<open>
  C6, as amended. A call of \<open>save_some_examples\<close> returns exactly when the loader has a
  first batch and the generator and the tensor operations on it succeed. A call that
  returns has made exactly one \<open>save_image\<close> call for \<open>sample_{epoch}.png\<close>, whose
  content is the denormalized input batch concatenated along dimension 3, the width,
  with the denormalized output of the generator; when \<open>epoch\<close> is 0 it has before that
  saved the denormalized labels as \<open>label_0.png\<close> and logged the graph of the generator,
  and when \<open>epoch\<close> is not 0 it has done neither.
\<close>

theorem save_some_examples_files:
  "save_some_examples T c call gen val_loader epoch folder writer fs
      = Inr (gen', writer', fs') \<longleftrightarrow>
   (\<exists>x0 y0 rest y_fake dy_fake dx x_concat.
      val_loader = (x0, y0) # rest
    \<and> call (Module_eval gen) (tensor_to T x0 (DEVICE c)) = Inr y_fake
    \<and> remove_normalization T c y_fake = Inr dy_fake
    \<and> remove_normalization T c (tensor_to T x0 (DEVICE c)) = Inr dx
    \<and> torch_cat T [dx, dy_fake] 3 = Inr x_concat
    \<and> gen' = Module_train (Module_eval gen)
    \<and> (if epoch = 0 then
          \<exists>dy. remove_normalization T c (tensor_to T y0 (DEVICE c)) = Inr dy
            \<and> fs' = fs @ [(dy, truediv folder ''label_0.png'', 4, 0),
                           (x_concat, truediv folder ''sample_0.png'', 4, 0)]
            \<and> writer' =
                add_image ''test_image epoch=0'' (make_grid T x_concat 4 0)
                  (add_graph (Module_eval gen) (tensor_to T x0 (DEVICE c)) writer)
        else
          fs' = fs @ [(x_concat, truediv folder (''sample_'' @ str_int epoch @ ''.png''), 4, 0)]
            \<and> writer' =
                add_image (''test_image epoch='' @ str_int epoch) (make_grid T x_concat 4 0)
                  writer))"
proof (cases val_loader)
  case Nil
  then show ?thesis by (simp add: save_some_examples_def Let_def)
next
  case (Cons b rest)
  obtain x0 y0 where b: "b = (x0, y0)" by (cases b)
  show ?thesis
  proof (cases "epoch = 0")
    case True
    with Cons b show ?thesis
      by (auto simp: save_some_examples_def Let_def bind_err_Inr_iff save_image_def str_int_0)
  next
    case False
    with Cons b show ?thesis
      by (auto simp: save_some_examples_def Let_def bind_err_Inr_iff save_image_def)
  qed
qed

theorem save_some_examples_files_witness:
  "save_some_examples list_torch list_cfg list_call \<lparr> training = False, weights = 10 \<rparr>
     [([1, 2], [3, 4])] 0 (mkPath ''out'') \<lparr> graphs = [], images = [] \<rparr> []
   = Inr (\<lparr> training = True, weights = 10 \<rparr>,
          \<lparr> graphs = [(\<lparr> training = False, weights = 10 \<rparr>, [1, 2])],
            images = [(''test_image epoch=0'', [3, 5, 23, 25])] \<rparr>,
          [([7, 9], PosixPath False [''out'', ''label_0.png''], 4, 0),
           ([3, 5, 23, 25], PosixPath False [''out'', ''sample_0.png''], 4, 0)])
   \<and> save_some_examples list_torch list_cfg list_call \<lparr> training = False, weights = 10 \<rparr>
     [([1, 2], [3, 4])] 7 (mkPath ''out'') \<lparr> graphs = [], images = [] \<rparr> []
   = Inr (\<lparr> training = True, weights = 10 \<rparr>,
          \<lparr> graphs = [], images = [(''test_image epoch=7'', [3, 5, 23, 25])] \<rparr>,
          [([3, 5, 23, 25], PosixPath False [''out'', ''sample_7.png''], 4, 0)])"
proof -
  have seven: "str_int 7 = ''7''"
    by (simp add: str_int_def str_nat.simps)
  have "save_some_examples list_torch list_cfg list_call \<lparr> training = False, weights = 10 \<rparr>
     [([1, 2], [3, 4])] 0 (mkPath ''out'') \<lparr> graphs = [], images = [] \<rparr> []
   = Inr (\<lparr> training = True, weights = 10 \<rparr>,
          \<lparr> graphs = [(\<lparr> training = False, weights = 10 \<rparr>, [1, 2])],
            images = [(''test_image epoch=0'', [3, 5, 23, 25])] \<rparr>,
          [([7, 9], PosixPath False [''out'', ''label_0.png''], 4, 0),
           ([3, 5, 23, 25], PosixPath False [''out'', ''sample_0.png''], 4, 0)])"
    by (rule iffD2 [OF save_some_examples_files])
      (simp add: list_torch_def list_cfg_def list_call_def remove_normalization_def
        Module_eval_def Module_train_def add_graph_def add_image_def truediv_def mkPath_def)
  moreover
  have "save_some_examples list_torch list_cfg list_call \<lparr> training = False, weights = 10 \<rparr>
     [([1, 2], [3, 4])] 7 (mkPath ''out'') \<lparr> graphs = [], images = [] \<rparr> []
   = Inr (\<lparr> training = True, weights = 10 \<rparr>,
          \<lparr> graphs = [], images = [(''test_image epoch=7'', [3, 5, 23, 25])] \<rparr>,
          [([3, 5, 23, 25], PosixPath False [''out'', ''sample_7.png''], 4, 0)])"
    by (rule iffD2 [OF save_some_examples_files])
      (simp add: list_torch_def list_cfg_def list_call_def remove_normalization_def
        Module_eval_def Module_train_def add_graph_def add_image_def truediv_def mkPath_def
        seven)
  ultimately show ?thesis by simp
qed

text \<open>
  The claim as it was stated, for every call, fails on an empty loader: the call raises
  \<open>StopIteration\<close> before anything is written, and returns nothing.
\<close>

theorem save_some_examples_empty_loader:
  "save_some_examples list_torch list_cfg list_call \<lparr> training = False, weights = 10 \<rparr>
     [] 0 (mkPath ''out'') \<lparr> graphs = [], images = [] \<rparr> []
   = Inl StopIteration"
  by (simp add: save_some_examples_def Let_def)

text \<open>
  C10. When \<open>save_some_examples\<close> or \<open>evaluate_val_set\<close> returns, the generator is in
  training mode, whatever its mode was at the call, and is otherwise the generator that
  was passed in.
\<close>

theorem generator_left_in_training_mode:
  "(save_some_examples T c call gen val_loader epoch folder writer fs
      = Inr (gen1, writer1, fs1) \<longrightarrow> training gen1 \<and> weights gen1 = weights gen)
   \<and> (evaluate_val_set T c call gen val_loader folder fs out
      = Inr (gen2, fs2, out2) \<longrightarrow> training gen2 \<and> weights gen2 = weights gen)"
proof (intro conjI impI)
  assume "save_some_examples T c call gen val_loader epoch folder writer fs
      = Inr (gen1, writer1, fs1)"
  then have "gen1 = Module_train (Module_eval gen)"
    by (auto simp: save_some_examples_def Let_def bind_err_Inr_iff
        split: list.splits)
  then show "training gen1" "weights gen1 = weights gen"
    by (simp_all add: Module_train_def Module_eval_def)
next
  assume "evaluate_val_set T c call gen val_loader folder fs out = Inr (gen2, fs2, out2)"
  then have "gen2 = Module_train (Module_eval gen)"
    by (auto simp: evaluate_val_set_def Let_def bind_err_Inr_iff)
  then show "training gen2" "weights gen2 = weights gen"
    by (simp_all add: Module_train_def Module_eval_def)
qed

theorem generator_left_in_training_mode_witness:
  "save_some_examples list_torch list_cfg list_call \<lparr> training = False, weights = 10 \<rparr>
     [([1, 2], [3, 4])] 1 (mkPath ''out'') \<lparr> graphs = [], images = [] \<rparr> []
   = Inr (\<lparr> training = True, weights = 10 \<rparr>,
          \<lparr> graphs = [], images = [(''test_image epoch=1'', [3, 5, 23, 25])] \<rparr>,
          [([3, 5, 23, 25], PosixPath False [''out'', ''sample_1.png''], 4, 0)])
   \<and> evaluate_val_set list_torch list_cfg list_call \<lparr> training = False, weights = 10 \<rparr>
     [([1, 2], [3, 4])] (mkPath ''out'') [] []
   = Inr (\<lparr> training = True, weights = 10 \<rparr>,
          [([3, 4, 23, 25], PosixPath False [''out'', ''val_0.png''], 4, 0)],
          [''Saving 0 image''])
   \<and> training \<lparr> training = True, weights = (10::int) \<rparr>"
proof -
  have one: "str_int 1 = ''1''"
    by (simp add: str_int_def str_nat.simps)
  have h1: "save_some_examples list_torch list_cfg list_call \<lparr> training = False, weights = 10 \<rparr>
     [([1, 2], [3, 4])] 1 (mkPath ''out'') \<lparr> graphs = [], images = [] \<rparr> []
   = Inr (\<lparr> training = True, weights = 10 \<rparr>,
          \<lparr> graphs = [], images = [(''test_image epoch=1'', [3, 5, 23, 25])] \<rparr>,
          [([3, 5, 23, 25], PosixPath False [''out'', ''sample_1.png''], 4, 0)])"
    by (simp add: save_some_examples_def list_torch_def list_cfg_def list_call_def
        remove_normalization_def Module_eval_def Module_train_def add_graph_def
        add_image_def save_image_def truediv_def mkPath_def one)
  have h2: "evaluate_val_set list_torch list_cfg list_call \<lparr> training = False, weights = 10 \<rparr>
     [([1, 2], [3, 4])] (mkPath ''out'') [] []
   = Inr (\<lparr> training = True, weights = 10 \<rparr>,
          [([3, 4, 23, 25], PosixPath False [''out'', ''val_0.png''], 4, 0)],
          [''Saving 0 image''])"
    by (simp add: evaluate_val_set_def list_torch_def list_cfg_def list_call_def
        remove_normalization_def Module_eval_def Module_train_def
        save_image_def truediv_def mkPath_def str_int_0)
  from generator_left_in_training_mode [of list_torch list_cfg list_call
      "\<lparr> training = False, weights = 10 \<rparr>" "[([1, 2], [3, 4])]" 1 "mkPath ''out''"
      "\<lparr> graphs = [], images = [] \<rparr>" "[]" "\<lparr> training = True, weights = 10 \<rparr>"
      "\<lparr> graphs = [], images = [(''test_image epoch=1'', [3, 5, 23, 25])] \<rparr>"
      "[([3, 5, 23, 25], PosixPath False [''out'', ''sample_1.png''], 4, 0)]"
      "[]" "\<lparr> training = True, weights = 10 \<rparr>"
      "[([3, 4, 23, 25], PosixPath False [''out'', ''val_0.png''], 4, 0)]"
      "[''Saving 0 image'']"] h1 h2
  show ?thesis by simp
qed

subsection \<open>Checkpoints\<close>

text \<open>
  C4. When \<open>load_checkpoint\<close> returns, the \<open>lr\<close> entry of every parameter group of the
  optimizer is the \<open>lr\<close> argument, whatever the checkpoint held.
\<close>

theorem load_checkpoint_sets_lr:
  assumes "load_checkpoint A files checkpoint_file mdl optimizer lr out
             = Inr (mdl', optimizer', out')"
  shows "\<forall>param_group \<in> set (param_groups optimizer'). param_group ''lr'' = Some lr"
proof -
  from assms obtain opt where
    "optimizer' = opt\<lparr>param_groups := map (\<lambda>pg. pg(''lr'' \<mapsto> lr)) (param_groups opt)\<rparr>"
    by (auto simp: load_checkpoint_def Let_def bind_err_Inr_iff)
  then show ?thesis by auto
qed

lemma dict_api_load_example:
  "load_checkpoint dict_api
     [mkPath ''gen.pth'' \<mapsto>
        [''state_dict'' \<mapsto> Inl [1, 2],
         ''optimizer'' \<mapsto> Inr (3, [[''lr'' \<mapsto> 10, ''beta'' \<mapsto> 9]])]]
     (mkPath ''gen.pth'') [0, 0] \<lparr> opt_state = 0, param_groups = [[''lr'' \<mapsto> 1]] \<rparr> 2 []
   = Inr ([1, 2],
          \<lparr> opt_state = 3,
            param_groups = map (\<lambda>pg. pg(''lr'' \<mapsto> 2)) [[''lr'' \<mapsto> 10, ''beta'' \<mapsto> 9]] \<rparr>,
          [''=> Loading checkpoint''])"
  by (simp add: load_checkpoint_def torch_load_def getitem_def dict_api_def)

theorem load_checkpoint_sets_lr_witness:
  "map (\<lambda>pg. pg ''lr'')
     (param_groups \<lparr> opt_state = (3::nat),
        param_groups = map (\<lambda>pg. pg(''lr'' \<mapsto> 2)) [[''lr'' \<mapsto> (10::int), ''beta'' \<mapsto> 9]] \<rparr>)
   = [Some 2]"
  using load_checkpoint_sets_lr [OF dict_api_load_example] by simp

text \<open>
  C5. Provided the framework's \<open>load_state_dict\<close> of a module and of an optimizer leave
  the receiver with the state dictionary they were given: saving a model and an
  optimizer and loading the file into a compatible model and optimizer returns, the
  model then has the state dictionary of the saved model, and the optimizer is the one
  restored from the saved optimizer's state dictionary but for the \<open>lr\<close> entry of each
  parameter group, which is the \<open>lr\<close> argument.
\<close>

theorem checkpoint_round_trip:
  assumes module_law:
      "\<And>m sd m'. module_load_state_dict A m sd = Inr m' \<Longrightarrow> module_state_dict A m' = sd"
    and optimizer_law:
      "\<And>opt sd opt'. optimizer_load_state_dict A opt sd = Inr opt'
         \<Longrightarrow> optimizer_state_dict A opt' = sd"
    and compatible_model:
      "module_load_state_dict A model2 (module_state_dict A mdl) = Inr m2"
    and compatible_optimizer:
      "optimizer_load_state_dict A optimizer2 (optimizer_state_dict A optimizer) = Inr o2"
  shows "load_checkpoint A (fst (save_checkpoint A mdl optimizer filename files out))
           filename model2 optimizer2 lr outl
         = Inr (m2,
                o2\<lparr>param_groups := map (\<lambda>pg. pg(''lr'' \<mapsto> lr)) (param_groups o2)\<rparr>,
                outl @ [''=> Loading checkpoint''])
     \<and> module_state_dict A m2 = module_state_dict A mdl
     \<and> optimizer_state_dict A o2 = optimizer_state_dict A optimizer"
proof -
  have "load_checkpoint A (fst (save_checkpoint A mdl optimizer filename files out))
           filename model2 optimizer2 lr outl
         = Inr (m2,
                o2\<lparr>param_groups := map (\<lambda>pg. pg(''lr'' \<mapsto> lr)) (param_groups o2)\<rparr>,
                outl @ [''=> Loading checkpoint''])"
    by (simp add: load_checkpoint_def save_checkpoint_def torch_save_def torch_load_def
        getitem_def Let_def compatible_model compatible_optimizer)
  moreover from module_law [OF compatible_model]
  have "module_state_dict A m2 = module_state_dict A mdl" .
  moreover from optimizer_law [OF compatible_optimizer]
  have "optimizer_state_dict A o2 = optimizer_state_dict A optimizer" .
  ultimately show ?thesis by simp
qed

lemma dict_api_module_law:
  "module_load_state_dict dict_api m sd = Inr m' \<Longrightarrow> module_state_dict dict_api m' = sd"
  by (auto simp: dict_api_def split: sum.splits if_splits)

lemma dict_api_optimizer_law:
  "optimizer_load_state_dict dict_api opt sd = Inr opt'
     \<Longrightarrow> optimizer_state_dict dict_api opt' = sd"
  by (auto simp: dict_api_def split: sum.splits if_splits prod.splits)

theorem checkpoint_round_trip_witness:
  "load_checkpoint dict_api
     (fst (save_checkpoint dict_api [1, 2]
        \<lparr> opt_state = 3, param_groups = [[''lr'' \<mapsto> 10, ''beta'' \<mapsto> 9]] \<rparr>
        (mkPath ''gen.pth'') Map.empty []))
     (mkPath ''gen.pth'') [0, 0] \<lparr> opt_state = 0, param_groups = [[''lr'' \<mapsto> 1]] \<rparr> 2 []
   = Inr ([1, 2],
          \<lparr> opt_state = 3,
            param_groups = [[''lr'' \<mapsto> 10, ''beta'' \<mapsto> 9, ''lr'' \<mapsto> 2]] \<rparr>,
          [''=> Loading checkpoint''])
   \<and> module_state_dict dict_api [1, 2] = Inl [1, 2]"
proof -
  have cm: "module_load_state_dict dict_api [0, 0] (module_state_dict dict_api [1, 2])
              = Inr [1, 2]"
    by (simp add: dict_api_def)
  have co: "optimizer_load_state_dict dict_api
              \<lparr> opt_state = 0, param_groups = [[''lr'' \<mapsto> 1]] \<rparr>
              (optimizer_state_dict dict_api
                 \<lparr> opt_state = 3, param_groups = [[''lr'' \<mapsto> 10, ''beta'' \<mapsto> 9]] \<rparr>)
              = Inr \<lparr> opt_state = 3, param_groups = [[''lr'' \<mapsto> 10, ''beta'' \<mapsto> 9]] \<rparr>"
    by (simp add: dict_api_def)
  from checkpoint_round_trip [where A = dict_api and filename = "mkPath ''gen.pth''"
      and files = Map.empty and out = "[]" and lr = 2 and outl = "[]",
      OF dict_api_module_law dict_api_optimizer_law cm co]
  show ?thesis by (simp add: dict_api_def)
qed

end
